theory Spec2Isabelle
  imports Main "HOL-Library.Word"
begin

unbundle bit_operations_syntax

section \<open>Battery-monitor bus driver: data model\<close>

text \<open>
  The driver in \<^verbatim>\<open>bm_codes/controlFunctions.py\<close> talks to a chain of battery monitors
  (BMs) over one serial port. Bytes on the wire are \<open>8 word\<close>; the values Python computes
  from them are unbounded integers (\<open>int\<close>); the NumPy \<^verbatim>\<open>uint16\<close> array that
  \<^verbatim>\<open>pollForVoltages\<close> fills holds \<open>16 word\<close>. A board address is a byte: the callers
  pass entries of \<^verbatim>\<open>addresses\<close> or a reserved address, and the frames are byte arrays.
  The module-level flag \<^verbatim>\<open>simulate\<close> (\<^verbatim>\<open>False\<close> as shipped) is a parameter of every
  function that reads it, so that both branches can be run.
\<close>

type_synonym byte = "8 word"
type_synonym uint16 = "16 word"

text \<open>
  \<^verbatim>\<open>getCRC\<close> is \<^verbatim>\<open>crc8.crcCalcCRC8\<close>, imported from a module outside the two source
  files. The driver's functions take it as the parameter \<open>crc\<close>: \<open>crc buf n\<close> is the
  checksum of the first \<open>n\<close> bytes of \<open>buf\<close>.
\<close>

type_synonym crc_fn = "byte list \<Rightarrow> nat \<Rightarrow> byte"

definition NO_BMS :: nat where
  "NO_BMS = 3"

definition addresses :: "byte list" where
  "addresses = [0xad, 0xbc, 0xde]"

definition BMS_COMMAND_LEN :: nat where
  "BMS_COMMAND_LEN = 8"

definition BM_RESPONSE_LEN :: nat where
  "BM_RESPONSE_LEN = 14"

definition Ess_current :: int where
  "Ess_current = 285"

definition HEAD :: byte where
  "HEAD = 0x58"

definition GLOBAL_ADDR :: byte where
  "GLOBAL_ADDR = 0xff"

definition DEFAULT_ADDR :: byte where
  "DEFAULT_ADDR = 0xfe"

definition CMD_TRIGGER :: byte where
  "CMD_TRIGGER = 0x32"

definition CMD_SET_ADDRESS :: byte where
  "CMD_SET_ADDRESS = 0x3c"

definition CMD_AUTOADDR_DONE :: byte where
  "CMD_AUTOADDR_DONE = 0x41"

definition CMD_GLOBAL_SNAPSHOT :: byte where
  "CMD_GLOBAL_SNAPSHOT = 0x46"

definition CMD_SEND_SUMMARY :: byte where
  "CMD_SEND_SUMMARY = 0x50"

definition CMD_SEND_ALL_VOLTAGES_1 :: byte where
  "CMD_SEND_ALL_VOLTAGES_1 = 0xa0"

definition CMD_SEND_ALL_VOLTAGES_2 :: byte where
  "CMD_SEND_ALL_VOLTAGES_2 = 0xa1"

definition CMD_SEND_ALL_VOLTAGES_3 :: byte where
  "CMD_SEND_ALL_VOLTAGES_3 = 0xa2"

definition CMD_BALANCE_TARGET :: byte where
  "CMD_BALANCE_TARGET = 0xaa"

subsection \<open>The world the driver acts on\<close>

text \<open>
  The serial port, the trigger pin, the random module and the console are the driver's
  environment. \<open>written\<close> is the log of frames handed to \<^verbatim>\<open>serialPort.write\<close>, oldest
  first; \<open>inbuf\<close> is the port's input buffer; \<open>incoming\<close> is what the bus will deliver:
  its head is the byte string that arrives after the next write (empty when no board
  answers). \<open>trigger_in\<close> is the level of GPIO 23. \<open>rand_src\<close> and \<open>rand_pos\<close> are the
  stream of raw draws behind \<^verbatim>\<open>random.randint\<close> and the number of draws taken so far.
  \<open>printed\<close> collects the lines \<^verbatim>\<open>Error in response received\<close>; the informational
  prints, the buzzer and the settling delays change nothing a frame or a result depends
  on and are left out.
\<close>

record world =
  written :: "byte list list"
  inbuf :: "byte list"
  incoming :: "byte list list"
  trigger_in :: bool
  rand_src :: "nat \<Rightarrow> nat"
  rand_pos :: nat
  printed :: "string list"

definition reset_input_buffer :: "world \<Rightarrow> world" where
  "reset_input_buffer w = w\<lparr>inbuf := []\<rparr>"

definition serial_write :: "byte list \<Rightarrow> world \<Rightarrow> world" where
  "serial_write frame w =
     (case incoming w of
        [] \<Rightarrow> w\<lparr>written := written w @ [frame]\<rparr>
      | r # rs \<Rightarrow> w\<lparr>written := written w @ [frame], inbuf := inbuf w @ r, incoming := rs\<rparr>)"

text \<open>\<^verbatim>\<open>serialPort.read(n)\<close> returns at most \<open>n\<close> bytes: fewer when the timeout ends first.\<close>

definition serial_read :: "nat \<Rightarrow> world \<Rightarrow> byte list \<times> world" where
  "serial_read n w = (take n (inbuf w), w\<lparr>inbuf := drop n (inbuf w)\<rparr>)"

definition inWaiting :: "world \<Rightarrow> nat" where
  "inWaiting w = length (inbuf w)"

text \<open>\<^verbatim>\<open>random.randint(lo, hi)\<close>: a value in \<open>lo..hi\<close>, taken from the next raw draw.\<close>

definition randint :: "nat \<Rightarrow> nat \<Rightarrow> world \<Rightarrow> byte \<times> world" where
  "randint lo hi w =
     (of_nat (lo + rand_src w (rand_pos w) mod (hi - lo + 1)), w\<lparr>rand_pos := rand_pos w + 1\<rparr>)"

definition print_error :: "world \<Rightarrow> world" where
  "print_error w = w\<lparr>printed := printed w @ [''Error in response received'']\<rparr>"

definition assertTrigger :: "world \<Rightarrow> world" where
  "assertTrigger w = w\<lparr>trigger_in := False\<rparr>"

definition deassertTrigger :: "world \<Rightarrow> world" where
  "deassertTrigger w = w\<lparr>trigger_in := True\<rparr>"

section \<open>Chain addressing\<close>

text \<open>
  One pass of the loop of \<^verbatim>\<open>assignAddresses\<close> for board \<open>i\<close>. The two command lists are
  mutated in place and live across iterations, so they are part of the loop state.
\<close>

definition assign_step :: "crc_fn \<Rightarrow> nat \<Rightarrow> byte list \<times> byte list \<times> world \<Rightarrow> byte list \<times> byte list \<times> world" where
  "assign_step crc i st =
     (case st of (global_set_addr_cmd, trigger_cmd, w) \<Rightarrow>
        if i = 0 then
          let w = assertTrigger w;
              global_set_addr_cmd = global_set_addr_cmd[3 := addresses ! i];
              global_set_addr_cmd = global_set_addr_cmd[7 := crc global_set_addr_cmd 7];
              trigger_cmd = trigger_cmd[1 := addresses ! i];
              trigger_cmd = trigger_cmd[7 := crc trigger_cmd 7];
              w = serial_write global_set_addr_cmd w;
              w = serial_write trigger_cmd w;
              w = deassertTrigger w
          in (global_set_addr_cmd, trigger_cmd, w)
        else
          let global_set_addr_cmd = global_set_addr_cmd[3 := addresses ! i];
              global_set_addr_cmd = global_set_addr_cmd[7 := crc global_set_addr_cmd 7];
              trigger_cmd = trigger_cmd[1 := addresses ! i];
              trigger_cmd = trigger_cmd[7 := crc trigger_cmd 7];
              w = serial_write global_set_addr_cmd w;
              w = serial_write trigger_cmd w;
              trigger_cmd = trigger_cmd[1 := addresses ! (i - 1)];
              trigger_cmd = trigger_cmd[7 := crc trigger_cmd 7];
              w = serial_write trigger_cmd w
          in (global_set_addr_cmd, trigger_cmd, w))"

definition assignAddresses :: "crc_fn \<Rightarrow> bool \<Rightarrow> world \<Rightarrow> world" where
  "assignAddresses crc simulate w =
     (if simulate = True then w
      else
        let auto_addr_done_cmd = [HEAD, GLOBAL_ADDR, CMD_AUTOADDR_DONE, 0x00, 0x00, 0x00, 0x00, 0x00];
            auto_addr_done_cmd = auto_addr_done_cmd[7 := crc auto_addr_done_cmd 7];
            trigger_cmd = [HEAD, DEFAULT_ADDR, CMD_TRIGGER, 0x00, 0x00, 0x00, 0x00, 0x00];
            global_set_addr_cmd = [HEAD, GLOBAL_ADDR, CMD_SET_ADDRESS, DEFAULT_ADDR, 0x00, 0x00, 0x02, 0x00];
            w = reset_input_buffer w;
            st = fold (assign_step crc) [0..<NO_BMS] (global_set_addr_cmd, trigger_cmd, w)
        in serial_write auto_addr_done_cmd (snd (snd st)))"

section \<open>Command dispatch\<close>

definition globalSnapshot :: "crc_fn \<Rightarrow> int \<Rightarrow> world \<Rightarrow> world" where
  "globalSnapshot crc Ess_curr w =
     (let lsb_byte = Ess_curr AND 0xff;
          msb_byte = drop_bit 8 Ess_curr AND 0xff;
          global_snapshot = [HEAD, GLOBAL_ADDR, CMD_GLOBAL_SNAPSHOT, 0x00,
                             word_of_int lsb_byte, word_of_int msb_byte, 0x00, 0xFF];
          global_snapshot = global_snapshot[7 := crc global_snapshot 7]
      in serial_write global_snapshot w)"

text \<open>The frame \<^verbatim>\<open>balanceTarget\<close> builds before it looks at the \<^verbatim>\<open>simulate\<close> flag.\<close>

definition balance_target_cmd :: "crc_fn \<Rightarrow> byte \<Rightarrow> int \<Rightarrow> byte list" where
  "balance_target_cmd crc addr target =
     (let tg = target - 1;
          lsb_byte = tg AND 0xff;
          msb_byte = drop_bit 8 tg AND 0xff;
          balance_target = [HEAD, addr, CMD_BALANCE_TARGET, 0x00,
                            word_of_int lsb_byte, word_of_int msb_byte, 0x00, 0xFF]
      in balance_target[7 := crc balance_target 7])"

definition balanceTarget :: "crc_fn \<Rightarrow> bool \<Rightarrow> byte \<Rightarrow> int \<Rightarrow> world \<Rightarrow> bool \<times> world" where
  "balanceTarget crc simulate addr target w =
     (let balance_target = balance_target_cmd crc addr target in
      if simulate = False then
        let w = reset_input_buffer w;
            w = serial_write balance_target w
        in if addr \<noteq> 0xff \<and> inWaiting w = 14 then (True, w)
           else if addr = 0xff then (True, w)
           else (False, w)
      else (True, w))"

definition resetTarget :: "crc_fn \<Rightarrow> bool \<Rightarrow> byte \<Rightarrow> world \<Rightarrow> bool \<times> world" where
  "resetTarget crc simulate addr w = balanceTarget crc simulate addr 4096 w"

section \<open>Telemetry\<close>

text \<open>
  The check both \<^verbatim>\<open>pollForVoltages\<close> and \<^verbatim>\<open>sendSummary\<close> make on a response before they
  read a field from it: \<^verbatim>\<open>len(buf) == BM_RESPONSE_LEN and getCRC(buf, BM_RESPONSE_LEN) == 0\<close>.
\<close>

definition response_ok :: "crc_fn \<Rightarrow> byte list \<Rightarrow> bool" where
  "response_ok crc bm_response_buffer =
     (length bm_response_buffer = BM_RESPONSE_LEN \<and> crc bm_response_buffer BM_RESPONSE_LEN = 0)"

subsection \<open>Cell voltages\<close>

text \<open>
  The list \<^verbatim>\<open>cellVoltages = [cellA, cellB, cellC, cellD]\<close> that both branches of
  \<^verbatim>\<open>pollForVoltages\<close> compute from a checked response, with the same text. Indexing a
  \<^verbatim>\<open>bytes\<close> or \<^verbatim>\<open>bytearray\<close> object gives a Python integer.
\<close>

definition cellVoltages :: "byte list \<Rightarrow> int list" where
  "cellVoltages bm_response_buffer =
     (let cellA = uint (bm_response_buffer ! 3) AND 0xff;
          cellA = push_bit 8 cellA OR uint (bm_response_buffer ! 2);
          cellB = uint (bm_response_buffer ! 5) AND 0xff;
          cellB = push_bit 8 cellB OR uint (bm_response_buffer ! 4);
          cellC = uint (bm_response_buffer ! 7) AND 0xff;
          cellC = push_bit 8 cellC OR uint (bm_response_buffer ! 6);
          cellD = uint (bm_response_buffer ! 9) AND 0xff;
          cellD = push_bit 8 cellD OR uint (bm_response_buffer ! 8)
      in [cellA, cellB, cellC, cellD])"

text \<open>
  One pass of the loop over \<open>j\<close> on the real port. A value stored into the
  \<^verbatim>\<open>uint16\<close> array is reduced to 16 bits; every value stored here is below \<open>2 ^ 16\<close>.
\<close>

definition poll_real_step :: "crc_fn \<Rightarrow> nat \<Rightarrow> uint16 list \<times> byte list \<times> world \<Rightarrow> uint16 list \<times> byte list \<times> world" where
  "poll_real_step crc j st =
     (case st of (allVoltages, send_voltage, w) \<Rightarrow>
        let send_voltage = send_voltage[2 := CMD_SEND_ALL_VOLTAGES_1 + of_nat j];
            send_voltage = send_voltage[7 := crc send_voltage 7];
            w = reset_input_buffer w;
            w = serial_write send_voltage w;
            (bm_response_buffer, w) = serial_read BM_RESPONSE_LEN w
        in if response_ok crc bm_response_buffer then
             (fold (\<lambda>k av. av[j * 4 + k := word_of_int (cellVoltages bm_response_buffer ! k)]) [0..<4] allVoltages,
              send_voltage, w)
           else (allVoltages, send_voltage, print_error w))"

text \<open>The filling of bytes 2 to 9 of a simulated response, shared with the summary mock-up.\<close>

definition sim_fill :: "nat \<Rightarrow> byte list \<times> world \<Rightarrow> byte list \<times> world" where
  "sim_fill i st =
     (case st of (bm_response_buffer, w) \<Rightarrow>
        if i mod 2 = 0 then
          let (r, w) = randint 0 255 w in (bm_response_buffer[i := r], w)
        else
          let (r, w) = randint 0 15 w in (bm_response_buffer[i := r], w))"

definition poll_sim_step :: "crc_fn \<Rightarrow> byte \<Rightarrow> nat \<Rightarrow> uint16 list \<times> byte list \<times> world \<Rightarrow> uint16 list \<times> byte list \<times> world" where
  "poll_sim_step crc address j st =
     (case st of (allVoltages, bm_response_buffer, w) \<Rightarrow>
        let bm_response_buffer = bm_response_buffer[0 := HEAD];
            bm_response_buffer = bm_response_buffer[1 := address];
            (bm_response_buffer, w) = fold sim_fill [2..<10] (bm_response_buffer, w);
            bm_response_buffer = fold (\<lambda>i b. b[i := 0]) [10..<14] bm_response_buffer;
            bm_response_buffer = bm_response_buffer[13 := crc bm_response_buffer 13]
        in if response_ok crc bm_response_buffer then
             (fold (\<lambda>k av. av[j * 4 + k := word_of_int (cellVoltages bm_response_buffer ! k + 1)]) [0..<4] allVoltages,
              bm_response_buffer, w)
           else (allVoltages, bm_response_buffer, print_error w))"

definition pollForVoltages :: "crc_fn \<Rightarrow> bool \<Rightarrow> byte \<Rightarrow> world \<Rightarrow> uint16 list \<times> world" where
  "pollForVoltages crc simulate address w =
     (let bm_response_buffer = replicate BM_RESPONSE_LEN (0 :: byte);
          allVoltages = replicate 12 (0 :: uint16);
          send_voltage = [HEAD, address, CMD_SEND_ALL_VOLTAGES_1, 0x00, 0x00, 0x00, 0x00, 0xFF]
      in if simulate = False then
           let w = globalSnapshot crc Ess_current w;
               (allVoltages, send_voltage, w) = fold (poll_real_step crc) [0..<3] (allVoltages, send_voltage, w)
           in (allVoltages, w)
         else
           let (allVoltages, bm_response_buffer, w) =
                 fold (poll_sim_step crc address) [0..<3] (allVoltages, bm_response_buffer, w)
           in (allVoltages, w))"

subsection \<open>Summary\<close>

text \<open>The fields \<^verbatim>\<open>sendSummary\<close> reads from a checked response, in the order it returns them.\<close>

definition summary_fields :: "byte list \<Rightarrow> int list" where
  "summary_fields bm_response_buffer =
     (let minV = uint (bm_response_buffer ! 3) AND 0xff;
          minV = push_bit 8 minV OR (uint (bm_response_buffer ! 2) AND 0xff);
          maxV = uint (bm_response_buffer ! 5) AND 0xff;
          maxV = push_bit 8 maxV OR (uint (bm_response_buffer ! 4) AND 0xff);
          avgV = uint (bm_response_buffer ! 7) AND 0xff;
          avgV = push_bit 8 avgV OR (uint (bm_response_buffer ! 6) AND 0xff);
          minVLoc = uint (bm_response_buffer ! 8) AND 0xf;
          maxVLoc = drop_bit 4 (uint (bm_response_buffer ! 8)) AND 0xf;
          temp1 = uint (bm_response_buffer ! 10) AND 0xf;
          temp1 = push_bit 8 temp1 OR (uint (bm_response_buffer ! 9) AND 0xff);
          temp2 = uint (bm_response_buffer ! 11) AND 0xff;
          temp2 = push_bit 4 temp2 OR drop_bit 4 (uint (bm_response_buffer ! 10));
          status = uint (bm_response_buffer ! 12)
      in [minV, minVLoc, maxV, maxVLoc, avgV, temp1, temp2, status])"

definition send_summary_cmd :: "crc_fn \<Rightarrow> byte \<Rightarrow> int \<Rightarrow> byte list" where
  "send_summary_cmd crc addr Ess_curr =
     (let lsb_byte = Ess_curr AND 0xff;
          msb_byte = drop_bit 8 Ess_curr AND 0xff;
          send_summary = [HEAD, addr, CMD_SEND_SUMMARY, 0x00,
                          word_of_int lsb_byte, word_of_int msb_byte, 0x00, 0xFF]
      in send_summary[7 := crc send_summary 7])"

definition sendSummary :: "crc_fn \<Rightarrow> bool \<Rightarrow> byte \<Rightarrow> int \<Rightarrow> world \<Rightarrow> int list \<times> world" where
  "sendSummary crc simulate addr Ess_curr w =
     (let send_summary = send_summary_cmd crc addr Ess_curr;
          bm_response_buffer = replicate BM_RESPONSE_LEN (0 :: byte);
          summary = replicate 8 (0 :: int)
      in if simulate = False then
           let w = reset_input_buffer w;
               w = serial_write send_summary w;
               (bm_response_buffer, w) = serial_read BM_RESPONSE_LEN w
           in if response_ok crc bm_response_buffer then
                (summary_fields bm_response_buffer, w)
              else (summary, print_error w)
         else
           let bm_response_buffer = bm_response_buffer[0 := HEAD];
               bm_response_buffer = bm_response_buffer[1 := addr];
               (bm_response_buffer, w) = fold sim_fill [2..<8] (bm_response_buffer, w);
               (r, w) = randint 0 0xbb w;
               bm_response_buffer = bm_response_buffer[8 := r];
               (bm_response_buffer, w) =
                  fold (\<lambda>i (b, w). let (r, w) = randint 0 255 w in (b[i := r], w)) [9..<12] (bm_response_buffer, w);
               (r, w) = randint 0 7 w;
               bm_response_buffer = bm_response_buffer[12 := r];
               bm_response_buffer = bm_response_buffer[13 := crc bm_response_buffer 13]
           in if response_ok crc bm_response_buffer then
                (summary_fields bm_response_buffer, w)
              else (summary, print_error w))"

section \<open>The polling loop of \<^verbatim>\<open>controlModule.py\<close>\<close>

text \<open>
  \<^verbatim>\<open>battery_voltages\<close> is the module-level table with one row of 12 readings per board.
  \<open>poll_board\<close> is the body of the loop over the boards; \<open>poll_cycle\<close> is one round of
  the endless outer loop, which runs one round every 55 seconds.
\<close>

definition battery_voltages_init :: "uint16 list list" where
  "battery_voltages_init = replicate NO_BMS (replicate 12 0)"

definition poll_board :: "crc_fn \<Rightarrow> bool \<Rightarrow> nat \<Rightarrow> uint16 list list \<times> world \<Rightarrow> uint16 list list \<times> world" where
  "poll_board crc simulate i st =
     (case st of (battery_voltages, w) \<Rightarrow>
        let (volt, w) = pollForVoltages crc simulate (addresses ! i) w;
            battery_voltages = battery_voltages[i := volt];
            (summary, w) = sendSummary crc simulate (addresses ! i) Ess_current w
        in (battery_voltages, w))"

definition poll_cycle :: "crc_fn \<Rightarrow> bool \<Rightarrow> uint16 list list \<times> world \<Rightarrow> uint16 list list \<times> world" where
  "poll_cycle crc simulate st = fold (poll_board crc simulate) [0..<length addresses] st"

section \<open>Notions used to state the properties\<close>

text \<open>
  \<open>reply w n\<close> is the byte string the bus delivers after the \<open>n\<close>-th write from now
  (counting from 0), \<open>received w n\<close> what \<^verbatim>\<open>serialPort.read(BM_RESPONSE_LEN)\<close> returns for
  it when the input buffer was cleared before that write, and \<open>emitted w w'\<close> the frames
  written between the worlds \<open>w\<close> and \<open>w'\<close>.
\<close>

definition reply :: "world \<Rightarrow> nat \<Rightarrow> byte list" where
  "reply w n = (if n < length (incoming w) then incoming w ! n else [])"

definition received :: "world \<Rightarrow> nat \<Rightarrow> byte list" where
  "received w n = take BM_RESPONSE_LEN (reply w n)"

definition emitted :: "world \<Rightarrow> world \<Rightarrow> byte list list" where
  "emitted w w' = drop (length (written w)) (written w')"

text \<open>The response frame the simulated branch of \<^verbatim>\<open>pollForVoltages\<close> builds in pass \<open>j\<close>.\<close>

definition sim_frame :: "crc_fn \<Rightarrow> byte \<Rightarrow> world \<Rightarrow> nat \<Rightarrow> byte list" where
  "sim_frame crc address w j =
     fst (snd (fold (poll_sim_step crc address) [0..<Suc j]
                 (replicate 12 0, replicate BM_RESPONSE_LEN 0, w)))"

text \<open>A world in which no board answers and nothing has been written yet.\<close>

definition silent_world :: world where
  "silent_world = \<lparr>written = [], inbuf = [], incoming = [], trigger_in = True,
                    rand_src = (\<lambda>n. 0), rand_pos = 0, printed = []\<rparr>"

section \<open>The checksum\<close>

text \<open>
  Modelled from the spec: the module \<^verbatim>\<open>crc8\<close> with \<^verbatim>\<open>crcCalcCRC8\<close> is not among the
  source files. The specification asks for a standard CRC-8 over the first \<open>length\<close>
  bytes whose value over a frame that ends in its own checksum is zero, and leaves the
  polynomial and the initial register open. The model is the bitwise CRC-8, most
  significant bit first, with the polynomial \<open>poly\<close> and the initial register \<open>init\<close> as
  parameters and no final exclusive-or.
\<close>

definition crc8_shift :: "byte \<Rightarrow> byte \<Rightarrow> byte" where
  "crc8_shift poly c = (if c AND 0x80 \<noteq> 0 then push_bit 1 c XOR poly else push_bit 1 c)"

definition crc8_update :: "byte \<Rightarrow> byte \<Rightarrow> byte \<Rightarrow> byte" where
  "crc8_update poly c b = (crc8_shift poly ^^ 8) (c XOR b)"

definition crcCalcCRC8 :: "byte \<Rightarrow> byte \<Rightarrow> byte list \<Rightarrow> nat \<Rightarrow> byte" where
  "crcCalcCRC8 poly init buf n = foldl (crc8_update poly) init (take n buf)"

subsection \<open>Sample data\<close>

text \<open>
  Responses that pass the check under the CRC-8 with polynomial \<open>0x07\<close> and initial
  register 0, and worlds in which a board sends them: a summary with minimum 3000 mV at
  cell 3, maximum 3500 mV at cell 9, average 3250 mV, temperatures 250 and 300 and status
  5, and three voltage responses for the cells at 100, 200, ..., 1200 mV (the first
  write of a poll is the snapshot broadcast, which no board answers).
\<close>

definition sample_summary_response :: "byte list" where
  "sample_summary_response =
     [0x58, 0xad, 0xB8, 0x0B, 0xAC, 0x0D, 0xB2, 0x0C, 0x93, 0xFA, 0xC0, 0x12, 0x05, 0x90]"

definition sample_voltage_responses :: "byte list list" where
  "sample_voltage_responses =
     [[0x58, 0xad, 100, 0, 200, 0, 0x2C, 1, 0x90, 1, 0, 0, 0, 32],
      [0x58, 0xad, 0xF4, 1, 0x58, 2, 0xBC, 2, 0x20, 3, 0, 0, 0, 74],
      [0x58, 0xad, 0x84, 3, 0xE8, 3, 0x4C, 4, 0xB0, 4, 0, 0, 0, 114]]"

definition sample_summary_world :: world where
  "sample_summary_world = silent_world\<lparr>incoming := [sample_summary_response]\<rparr>"

definition sample_voltage_world :: world where
  "sample_voltage_world = silent_world\<lparr>incoming := [] # sample_voltage_responses\<rparr>"

text \<open>
  A world for the simulated branch with the draws 11, 48, 85, ..., and a world in which
  the board answers the three voltage requests with the frames the simulated branch
  builds from those draws for address \<open>0xAD\<close>.
\<close>

definition sample_sim_world :: world where
  "sample_sim_world = silent_world\<lparr>rand_src := (\<lambda>n. 37 * n + 11)\<rparr>"

definition sample_echo_world :: world where
  "sample_echo_world =
     silent_world\<lparr>incoming := [] # map (sim_frame (crcCalcCRC8 7 0) 0xad sample_sim_world) [0, 1, 2]\<rparr>"

section \<open>Auxiliary facts\<close>

lemma upt_0_3: "[0..<3] = [0, 1, 2]"
  by (simp add: upt_rec)

lemma upt_0_4: "[0..<4] = [0, 1, 2, 3]"
  by (simp add: upt_rec)

lemma written_serial_write [simp]: "written (serial_write f w) = written w @ [f]"
  by (simp add: serial_write_def split: list.split)

lemma incoming_serial_write [simp]: "incoming (serial_write f w) = tl (incoming w)"
  by (simp add: serial_write_def split: list.split)

lemma printed_serial_write [simp]: "printed (serial_write f w) = printed w"
  by (simp add: serial_write_def split: list.split)

lemma inbuf_exchange [simp]: "inbuf (serial_write f (reset_input_buffer w)) = reply w 0"
  by (simp add: serial_write_def reset_input_buffer_def reply_def split: list.split)

lemma written_reset [simp]: "written (reset_input_buffer w) = written w"
  by (simp add: reset_input_buffer_def)

lemma incoming_reset [simp]: "incoming (reset_input_buffer w) = incoming w"
  by (simp add: reset_input_buffer_def)

lemma printed_reset [simp]: "printed (reset_input_buffer w) = printed w"
  by (simp add: reset_input_buffer_def)

lemma written_trigger [simp]:
  "written (assertTrigger w) = written w" "written (deassertTrigger w) = written w"
  by (simp_all add: assertTrigger_def deassertTrigger_def)

lemma serial_read_simps [simp]:
  "fst (serial_read n w) = take n (inbuf w)"
  "written (snd (serial_read n w)) = written w"
  "incoming (snd (serial_read n w)) = incoming w"
  "printed (snd (serial_read n w)) = printed w"
  by (simp_all add: serial_read_def)

lemma print_error_simps [simp]:
  "written (print_error w) = written w"
  "incoming (print_error w) = incoming w"
  "printed (print_error w) = printed w @ [''Error in response received'']"
  by (simp_all add: print_error_def)

lemma reply_tl: "incoming w' = tl (incoming w) \<Longrightarrow> reply w' n = reply w (Suc n)"
  by (cases "incoming w") (simp_all add: reply_def)

lemma received_tl: "incoming w' = tl (incoming w) \<Longrightarrow> received w' n = received w (Suc n)"
  by (simp add: received_def reply_tl)

lemma globalSnapshot_simps [simp]:
  "incoming (globalSnapshot crc c w) = tl (incoming w)"
  "printed (globalSnapshot crc c w) = printed w"
  "length (written (globalSnapshot crc c w)) = Suc (length (written w))"
  by (simp_all add: globalSnapshot_def Let_def)

lemma store_length [simp]:
  "length (fold (\<lambda>k av. av[j * 4 + k := g k]) [0..<4] av) = length av"
  by (simp add: upt_0_4)

lemma store_nth:
  "j * 4 + 4 \<le> length av \<Longrightarrow>
   fold (\<lambda>k av. av[j * 4 + k := g k]) [0..<4] av ! n =
     (if j * 4 \<le> n \<and> n < j * 4 + 4 then g (n - j * 4) else av ! n)"
  by (auto simp add: upt_0_4 nth_list_update)

lemma poll_real_step_fst:
  "fst (poll_real_step crc j st) =
     (if response_ok crc (received (snd (snd st)) 0)
      then fold (\<lambda>k av. av[j * 4 + k := word_of_int (cellVoltages (received (snd (snd st)) 0) ! k)]) [0..<4] (fst st)
      else fst st)"
  by (simp add: poll_real_step_def Let_def split_beta received_def)

lemma poll_real_step_world:
  "incoming (snd (snd (poll_real_step crc j st))) = tl (incoming (snd (snd st)))"
  "written (snd (snd (poll_real_step crc j st))) =
     written (snd (snd st)) @ [((fst (snd st))[2 := CMD_SEND_ALL_VOLTAGES_1 + of_nat j])[7 := crc ((fst (snd st))[2 := CMD_SEND_ALL_VOLTAGES_1 + of_nat j]) 7]]"
  "printed (snd (snd (poll_real_step crc j st))) =
     printed (snd (snd st)) @ (if response_ok crc (received (snd (snd st)) 0) then [] else [''Error in response received''])"
  "fst (snd (poll_real_step crc j st)) =
     ((fst (snd st))[2 := CMD_SEND_ALL_VOLTAGES_1 + of_nat j])[7 := crc ((fst (snd st))[2 := CMD_SEND_ALL_VOLTAGES_1 + of_nat j]) 7]"
  by (simp_all add: poll_real_step_def Let_def split_beta received_def)

lemma poll_real_step_received:
  "received (snd (snd (poll_real_step crc j st))) n = received (snd (snd st)) (Suc n)"
  by (rule received_tl) (simp add: poll_real_step_world)

lemma poll_real_step_length [simp]:
  "length (fst (poll_real_step crc j st)) = length (fst st)"
  by (simp add: poll_real_step_fst)

lemma globalSnapshot_received:
  "received (globalSnapshot crc c w) n = received w (Suc n)"
  by (rule received_tl) simp

lemma pollForVoltages_real_length:
  "length (fst (pollForVoltages crc False a w)) = 12"
  by (simp add: pollForVoltages_def Let_def split_beta upt_0_3)

lemma poll_real_step_nth:
  "j * 4 + 4 \<le> length (fst st) \<Longrightarrow>
   fst (poll_real_step crc j st) ! n =
     (if response_ok crc (received (snd (snd st)) 0) \<and> j * 4 \<le> n \<and> n < j * 4 + 4
      then word_of_int (cellVoltages (received (snd (snd st)) 0) ! (n - j * 4))
      else fst st ! n)"
  by (simp add: poll_real_step_fst store_nth)

lemma pollForVoltages_real_nth:
  assumes "j < 3" "k < 4"
  shows "fst (pollForVoltages crc False a w) ! (4 * j + k) =
     (if response_ok crc (received w (Suc j))
      then word_of_int (cellVoltages (received w (Suc j)) ! k) else 0)"
proof -
  from assms have "j = 0 \<or> j = 1 \<or> j = 2" by auto
  then show ?thesis using assms(2)
    by (auto simp add: pollForVoltages_def Let_def split_beta upt_0_3 poll_real_step_nth
        poll_real_step_received globalSnapshot_received numeral_3_eq_3)
qed

lemma uint_low_byte: "uint (word_of_int (x AND 0xff) :: byte) = x mod 256"
proof -
  have "x AND 0xff = take_bit 8 x"
    using take_bit_eq_mask [of 8 x] by (simp add: mask_eq_exp_minus_1)
  then show ?thesis by (simp add: uint_word_of_int take_bit_eq_mod)
qed

lemma balance_target_cmd_nth:
  "balance_target_cmd crc addr target ! 4 = word_of_int ((target - 1) AND 0xff)"
  "balance_target_cmd crc addr target ! 5 = word_of_int (drop_bit 8 (target - 1) AND 0xff)"
  by (simp_all add: balance_target_cmd_def Let_def)

lemma emitted_append [simp]: "written w' = written w @ fs \<Longrightarrow> emitted w w' = fs"
  by (simp add: emitted_def)

lemma balanceTarget_written:
  "written (snd (balanceTarget crc False addr target w)) = written w @ [balance_target_cmd crc addr target]"
  by (simp add: balanceTarget_def Let_def)

lemma uint_byte_and_ff: "uint (b :: byte) AND 0xff = uint b"
proof -
  have "uint b AND 0xff = take_bit 8 (uint b)"
    using take_bit_eq_mask [of 8 "uint b"] by (simp add: mask_eq_exp_minus_1)
  also have "\<dots> = uint b"
    using uint_lt2p [of b] by (simp add: take_bit_int_eq_self)
  finally show ?thesis .
qed

lemma uint_low_nibble: "uint (b :: byte) AND 0xf = uint (b AND 0xf)"
  by (simp add: uint_and)

lemma uint_high_nibble: "drop_bit 4 (uint (b :: byte)) = uint (drop_bit 4 b)"
  using uint_lt2p [of b] by (simp add: unsigned_drop_bit_eq take_bit_int_eq_self)

lemma uint_high_nibble_mask: "drop_bit 4 (uint (b :: byte)) AND 0xf = uint (drop_bit 4 b)"
proof -
  have "drop_bit 4 (uint b) AND 0xf = take_bit 4 (drop_bit 4 (uint b))"
    using take_bit_eq_mask [of 4 "drop_bit 4 (uint b)"] by (simp add: mask_eq_exp_minus_1)
  also have "\<dots> = drop_bit 4 (uint b)"
  proof -
    have "uint b div 16 < 2 ^ 4" using uint_lt2p [of b] by simp
    moreover have "0 \<le> uint b div 16" by (simp add: pos_imp_zdiv_nonneg_iff)
    ultimately show ?thesis by (simp add: take_bit_int_eq_self drop_bit_eq_div)
  qed
  finally show ?thesis by (simp add: uint_high_nibble)
qed

lemma summary_fields_eq:
  "summary_fields B =
     [uint (B ! 2) OR push_bit 8 (uint (B ! 3)), uint (B ! 8 AND 0xf),
      uint (B ! 4) OR push_bit 8 (uint (B ! 5)), uint (drop_bit 4 (B ! 8)),
      uint (B ! 6) OR push_bit 8 (uint (B ! 7)),
      uint (B ! 9) OR push_bit 8 (uint (B ! 10 AND 0xf)),
      uint (drop_bit 4 (B ! 10)) OR push_bit 4 (uint (B ! 11)),
      uint (B ! 12)]"
  using uint_high_nibble_mask [of "B ! 8"]
  by (simp add: summary_fields_def Let_def uint_byte_and_ff uint_low_nibble uint_high_nibble or.commute)

lemma sendSummary_real:
  "fst (sendSummary crc False addr cur w) =
     (if response_ok crc (received w 0) then summary_fields (received w 0) else replicate 8 0)"
  "printed (snd (sendSummary crc False addr cur w)) =
     printed w @ (if response_ok crc (received w 0) then [] else [''Error in response received''])"
  "written (snd (sendSummary crc False addr cur w)) = written w @ [send_summary_cmd crc addr cur]"
  "incoming (snd (sendSummary crc False addr cur w)) = tl (incoming w)"
  by (simp_all add: sendSummary_def Let_def split_beta received_def)

lemma or_shift_byte: "uint (lo :: byte) OR push_bit 8 (uint (hi :: byte)) = uint lo + 256 * uint hi"
proof -
  have "uint lo + push_bit 8 (uint hi) = uint lo OR push_bit 8 (uint hi)"
    by (rule disjunctive_add_eq_or, rule bit_eqI) (auto simp add: bit_simps dest: bit_imp_le_length)
  then show ?thesis by (simp add: push_bit_eq_mult)
qed

section \<open>The balance target\<close>

text \<open>
  Claim C6. For every address and every target of at least 1 mV, byte 4 of the frame
  that \<^verbatim>\<open>balanceTarget\<close> builds is the low byte of \<open>target - 1\<close> and byte 5 is its second
  byte, and that frame is the one frame the call writes. For a target of at most 65536
  the two bytes read little-endian are \<open>target - 1\<close>; for 3300 they give 3299.
\<close>

theorem balance_target_payload:
  "1 \<le> target \<Longrightarrow>
     balance_target_cmd crc addr target ! 4 = word_of_int ((target - 1) AND 0xff) \<and>
     balance_target_cmd crc addr target ! 5 = word_of_int (drop_bit 8 (target - 1) AND 0xff) \<and>
     emitted w (snd (balanceTarget crc False addr target w)) = [balance_target_cmd crc addr target] \<and>
     (target \<le> 65536 \<longrightarrow>
        uint (balance_target_cmd crc addr target ! 4)
          + 256 * uint (balance_target_cmd crc addr target ! 5) = target - 1) \<and>
     uint (balance_target_cmd crc addr 3300 ! 4) + 256 * uint (balance_target_cmd crc addr 3300 ! 5) = 3299"
proof -
  assume pos: "1 \<le> target"
  have wide: "uint (balance_target_cmd crc addr t ! 4) + 256 * uint (balance_target_cmd crc addr t ! 5) = t - 1"
    if "1 \<le> t" "t \<le> 65536" for t
  proof -
    have "(t - 1) div 256 < 256" using that by simp
    moreover have "0 \<le> (t - 1) div 256" using that by simp
    ultimately have "((t - 1) div 256) mod 256 = (t - 1) div 256" by simp
    then show ?thesis
      by (simp add: balance_target_cmd_nth uint_low_byte drop_bit_eq_div)
  qed
  have "uint (balance_target_cmd crc addr 3300 ! 4) + 256 * uint (balance_target_cmd crc addr 3300 ! 5) = 3299"
    using wide [of 3300] by simp
  with pos wide [of target] show ?thesis
    by (simp add: balance_target_cmd_nth balanceTarget_written)
qed

theorem balance_target_payload_witness:
  "(1::int) \<le> 3300 \<and>
   balance_target_cmd (crcCalcCRC8 7 0) 0xad 3300 ! 4 = 0xe3 \<and>
   balance_target_cmd (crcCalcCRC8 7 0) 0xad 3300 ! 5 = 0x0c \<and>
   emitted silent_world (snd (balanceTarget (crcCalcCRC8 7 0) False 0xad 3300 silent_world))
     = [balance_target_cmd (crcCalcCRC8 7 0) 0xad 3300] \<and>
   (3300::int) \<le> 65536 \<and>
   uint (balance_target_cmd (crcCalcCRC8 7 0) 0xad 3300 ! 4)
     + 256 * uint (balance_target_cmd (crcCalcCRC8 7 0) 0xad 3300 ! 5) = 3299"
  using balance_target_payload [of 3300 "crcCalcCRC8 7 0" "0xad" silent_world] by simp

lemma inWaiting_balanceTarget:
  "inWaiting (snd (balanceTarget crc False addr target w)) = length (reply w 0)"
  by (simp add: balanceTarget_def Let_def inWaiting_def)

text \<open>
  Claim C7. A broadcast call of \<^verbatim>\<open>balanceTarget\<close> (address \<open>0xFF\<close>) returns \<open>True\<close>
  whatever the port holds; on the real port a targeted call returns \<open>True\<close> exactly when
  14 bytes wait in the input buffer after the send, which are the bytes that arrived
  after the write; \<^verbatim>\<open>resetTarget(addr)\<close> is \<^verbatim>\<open>balanceTarget(addr, 4096)\<close>.
\<close>

theorem balance_ack:
  "fst (balanceTarget crc simulate GLOBAL_ADDR target w) = True \<and>
   (addr \<noteq> GLOBAL_ADDR \<longrightarrow>
      fst (balanceTarget crc False addr target w)
        = (inWaiting (snd (balanceTarget crc False addr target w)) = 14)) \<and>
   inWaiting (snd (balanceTarget crc False addr target w)) = length (reply w 0) \<and>
   resetTarget crc simulate addr w = balanceTarget crc simulate addr 4096 w"
  by (simp add: balanceTarget_def Let_def inWaiting_def GLOBAL_ADDR_def resetTarget_def)

theorem balance_ack_witness:
  "(0xad :: byte) \<noteq> GLOBAL_ADDR \<and>
   fst (balanceTarget (crcCalcCRC8 7 0) False 0xad 3300 silent_world) = False \<and>
   inWaiting (snd (balanceTarget (crcCalcCRC8 7 0) False 0xad 3300 silent_world)) = 0 \<and>
   fst (balanceTarget (crcCalcCRC8 7 0) False 0xad 3300 (silent_world\<lparr>incoming := [replicate 14 0]\<rparr>)) = True"
  using balance_ack [of "crcCalcCRC8 7 0" False 3300 silent_world "0xad"]
    balance_ack [of "crcCalcCRC8 7 0" False 3300 "silent_world\<lparr>incoming := [replicate 14 0]\<rparr>" "0xad"]
  by (simp add: GLOBAL_ADDR_def reply_def silent_world_def)

lemma crc8_update_unfold:
  "crc8_update poly c b =
     crc8_shift poly (crc8_shift poly (crc8_shift poly (crc8_shift poly
       (crc8_shift poly (crc8_shift poly (crc8_shift poly (crc8_shift poly (c XOR b))))))))"
  by (simp add: crc8_update_def eval_nat_numeral)

lemma sample_summary_ok: "response_ok (crcCalcCRC8 7 0) sample_summary_response"
  by (simp add: response_ok_def crcCalcCRC8_def crc8_update_unfold crc8_shift_def
      sample_summary_response_def BM_RESPONSE_LEN_def)

lemma sample_voltage_ok:
  "response_ok (crcCalcCRC8 7 0) (sample_voltage_responses ! 0)"
  "response_ok (crcCalcCRC8 7 0) (sample_voltage_responses ! 1)"
  "response_ok (crcCalcCRC8 7 0) (sample_voltage_responses ! 2)"
  by (simp_all add: response_ok_def crcCalcCRC8_def crc8_update_unfold crc8_shift_def
      sample_voltage_responses_def BM_RESPONSE_LEN_def)

lemma received_sample_summary: "received sample_summary_world 0 = sample_summary_response"
  by (simp add: received_def reply_def sample_summary_world_def sample_summary_response_def BM_RESPONSE_LEN_def)

lemma received_sample_voltage:
  "j < 3 \<Longrightarrow> received sample_voltage_world (Suc j) = sample_voltage_responses ! j"
  by (auto simp add: received_def reply_def sample_voltage_world_def sample_voltage_responses_def
      BM_RESPONSE_LEN_def less_Suc_eq numeral_3_eq_3)

section \<open>Decoding a summary\<close>

text \<open>
  Claim C1. When the 14 bytes read after the summary request pass the check,
  \<^verbatim>\<open>sendSummary\<close> returns, in this order: the minimum voltage (byte 2 with byte 3 above
  it), the low nibble of byte 8, the maximum voltage (bytes 4 and 5), the high nibble of
  byte 8, the average voltage (bytes 6 and 7), the first temperature (byte 9 with the low
  nibble of byte 10 above it), the second temperature (the high nibble of byte 10 with
  byte 11 above it) and byte 12 as it is.
\<close>

theorem summary_decode:
  "response_ok crc (received w 0) \<Longrightarrow>
   fst (sendSummary crc False addr Ess_curr w) =
     [uint (received w 0 ! 2) OR push_bit 8 (uint (received w 0 ! 3)),
      uint (received w 0 ! 8 AND 0xf),
      uint (received w 0 ! 4) OR push_bit 8 (uint (received w 0 ! 5)),
      uint (drop_bit 4 (received w 0 ! 8)),
      uint (received w 0 ! 6) OR push_bit 8 (uint (received w 0 ! 7)),
      uint (received w 0 ! 9) OR push_bit 8 (uint (received w 0 ! 10 AND 0xf)),
      uint (drop_bit 4 (received w 0 ! 10)) OR push_bit 4 (uint (received w 0 ! 11)),
      uint (received w 0 ! 12)]"
  by (simp add: sendSummary_real summary_fields_eq)

theorem summary_decode_witness:
  "response_ok (crcCalcCRC8 7 0) (received sample_summary_world 0) \<and>
   fst (sendSummary (crcCalcCRC8 7 0) False 0xad 285 sample_summary_world)
     = [3000, 3, 3500, 9, 3250, 250, 300, 5]"
proof -
  have ok: "response_ok (crcCalcCRC8 7 0) (received sample_summary_world 0)"
    by (simp add: sample_summary_ok received_sample_summary)
  have "fst (sendSummary (crcCalcCRC8 7 0) False 0xad 285 sample_summary_world)
     = [3000, 3, 3500, 9, 3250, 250, 300, 5]"
    unfolding summary_decode [OF ok, of "0xad" 285] received_sample_summary
    by (simp add: sample_summary_response_def)
  with ok show ?thesis by simp
qed

section \<open>Decoding the cell voltages\<close>

lemma cellVoltages_nth:
  "k < 4 \<Longrightarrow>
   cellVoltages B ! k = uint (B ! (2 + 2 * k)) OR push_bit 8 (uint (B ! (3 + 2 * k)))"
proof -
  assume "k < 4"
  then have "k = 0 \<or> k = 1 \<or> k = 2 \<or> k = 3" by auto
  then show ?thesis
    by (elim disjE) (simp_all add: cellVoltages_def Let_def uint_byte_and_ff or.commute)
qed

lemma uint16_of_pair:
  "uint (word_of_int (uint (lo :: byte) OR push_bit 8 (uint (hi :: byte))) :: uint16)
     = uint lo OR push_bit 8 (uint hi)"
proof -
  define x where "x = uint lo OR push_bit 8 (uint hi)"
  have "x = uint lo + 256 * uint hi"
    by (simp add: x_def or_shift_byte)
  then have "0 \<le> x" "x < 2 ^ 16"
    using uint_lt2p [of lo] uint_lt2p [of hi] by simp_all
  then have "uint (word_of_int x :: uint16) = x"
    by (simp add: uint_word_of_int take_bit_int_eq_self)
  then show ?thesis by (simp only: x_def)
qed

lemma pollForVoltages_real_emitted:
  "length (emitted w (snd (pollForVoltages crc False a w))) = 4"
  "j < 3 \<Longrightarrow> emitted w (snd (pollForVoltages crc False a w)) ! Suc j ! 2 = CMD_SEND_ALL_VOLTAGES_1 + of_nat j"
  "j < 3 \<Longrightarrow> emitted w (snd (pollForVoltages crc False a w)) ! Suc j ! 1 = a"
  by (auto simp add: pollForVoltages_def Let_def split_beta upt_0_3 poll_real_step_world
      globalSnapshot_def emitted_def less_Suc_eq numeral_3_eq_3)

text \<open>
  Claim C2. For each of the three voltage requests \<open>j\<close> and each cell \<open>k\<close> of its
  response: when the response passes the check, entry \<open>4 * j + k\<close> of the 12 values that
  \<^verbatim>\<open>pollForVoltages\<close> returns is byte \<open>2 + 2 * k\<close> of that response with byte
  \<open>3 + 2 * k\<close> above it. The call writes four frames, the snapshot broadcast and the
  three requests, and request \<open>j\<close> carries the command \<open>SEND_ALL_VOLTAGES_1 + j\<close>.
\<close>

theorem poll_voltages_layout:
  "j < 3 \<Longrightarrow> k < 4 \<Longrightarrow> response_ok crc (received w (Suc j)) \<Longrightarrow>
     uint (fst (pollForVoltages crc False address w) ! (4 * j + k))
       = uint (received w (Suc j) ! (2 + 2 * k)) OR push_bit 8 (uint (received w (Suc j) ! (3 + 2 * k))) \<and>
     length (fst (pollForVoltages crc False address w)) = 12 \<and>
     length (emitted w (snd (pollForVoltages crc False address w))) = 4 \<and>
     emitted w (snd (pollForVoltages crc False address w)) ! Suc j ! 2 = CMD_SEND_ALL_VOLTAGES_1 + of_nat j"
  by (simp add: pollForVoltages_real_nth pollForVoltages_real_length pollForVoltages_real_emitted
      cellVoltages_nth uint16_of_pair)

theorem poll_voltages_layout_witness:
  "(1::nat) < 3 \<and> (2::nat) < 4 \<and> response_ok (crcCalcCRC8 7 0) (received sample_voltage_world (Suc 1)) \<and>
   uint (fst (pollForVoltages (crcCalcCRC8 7 0) False 0xad sample_voltage_world) ! (4 * 1 + 2)) = 700 \<and>
   emitted sample_voltage_world (snd (pollForVoltages (crcCalcCRC8 7 0) False 0xad sample_voltage_world)) ! Suc 1 ! 2
     = CMD_SEND_ALL_VOLTAGES_2"
proof -
  have ok: "response_ok (crcCalcCRC8 7 0) (received sample_voltage_world (Suc 1))"
    using received_sample_voltage [of 1] sample_voltage_ok(2) by simp
  have "uint (fst (pollForVoltages (crcCalcCRC8 7 0) False 0xad sample_voltage_world) ! (4 * 1 + 2)) = 700 \<and>
    emitted sample_voltage_world (snd (pollForVoltages (crcCalcCRC8 7 0) False 0xad sample_voltage_world)) ! Suc 1 ! 2
     = CMD_SEND_ALL_VOLTAGES_2"
    using poll_voltages_layout [OF _ _ ok, of 2 "0xad"] received_sample_voltage [of 1]
    by (simp add: sample_voltage_responses_def
        CMD_SEND_ALL_VOLTAGES_1_def CMD_SEND_ALL_VOLTAGES_2_def)
  with ok show ?thesis by simp
qed

section \<open>The check before any field is read\<close>

lemma pollForVoltages_real_printed:
  "printed (snd (pollForVoltages crc False a w)) =
     printed w @ concat (map (\<lambda>j. if response_ok crc (received w (Suc j)) then []
                                   else [''Error in response received'']) [0..<3])"
  by (simp add: pollForVoltages_def Let_def split_beta upt_0_3 poll_real_step_world
      poll_real_step_received globalSnapshot_received numeral_3_eq_3)

text \<open>
  Claim C3. The check holds of a byte string exactly when it has 14 bytes and the
  checksum over all 14 is zero. \<^verbatim>\<open>sendSummary\<close> returns the fields read from the bytes
  it received when they pass the check, and otherwise its initial eight zeros together
  with the error line; \<^verbatim>\<open>pollForVoltages\<close> stores the voltages of response \<open>j\<close> when it
  passes, and otherwise leaves the four entries at their initial zero and prints the
  error line. In neither function does a byte of a failed response reach the result.
\<close>

theorem validation_gate:
  "response_ok crc B = (length B = 14 \<and> crc B 14 = 0) \<and>
   fst (sendSummary crc False addr Ess_curr w) =
     (if response_ok crc (received w 0) then summary_fields (received w 0) else replicate 8 0) \<and>
   printed (snd (sendSummary crc False addr Ess_curr w)) =
     printed w @ (if response_ok crc (received w 0) then [] else [''Error in response received'']) \<and>
   (j < 3 \<longrightarrow> k < 4 \<longrightarrow>
      fst (pollForVoltages crc False address w) ! (4 * j + k) =
        (if response_ok crc (received w (Suc j))
         then word_of_int (cellVoltages (received w (Suc j)) ! k) else 0)) \<and>
   printed (snd (pollForVoltages crc False address w)) =
     printed w @ concat (map (\<lambda>j. if response_ok crc (received w (Suc j)) then []
                                   else [''Error in response received'']) [0..<3])"
  by (simp add: sendSummary_real pollForVoltages_real_nth pollForVoltages_real_printed
      response_ok_def BM_RESPONSE_LEN_def)

lemma received_silent [simp]: "received silent_world n = []"
  by (simp add: received_def reply_def silent_world_def)

lemma response_ok_Nil [simp]: "\<not> response_ok crc []"
  by (simp add: response_ok_def BM_RESPONSE_LEN_def)

theorem validation_gate_witness:
  "(0::nat) < 3 \<and> (0::nat) < 4 \<and>
   \<not> response_ok (crcCalcCRC8 7 0) (received silent_world 0) \<and>
   fst (sendSummary (crcCalcCRC8 7 0) False 0xad 285 silent_world) = replicate 8 0 \<and>
   printed (snd (sendSummary (crcCalcCRC8 7 0) False 0xad 285 silent_world)) = [''Error in response received''] \<and>
   fst (pollForVoltages (crcCalcCRC8 7 0) False 0xad silent_world) ! (4 * 0 + 0) = 0 \<and>
   response_ok (crcCalcCRC8 7 0) (received sample_summary_world 0) \<and>
   fst (sendSummary (crcCalcCRC8 7 0) False 0xad 285 sample_summary_world) = summary_fields sample_summary_response \<and>
   printed (snd (sendSummary (crcCalcCRC8 7 0) False 0xad 285 sample_summary_world)) = []"
  using validation_gate [of "crcCalcCRC8 7 0" "[]" "0xad" 285 silent_world 0 0 "0xad"]
    validation_gate [of "crcCalcCRC8 7 0" "[]" "0xad" 285 sample_summary_world 0 0 "0xad"]
    sample_summary_ok
  by (simp add: received_sample_summary) (simp add: silent_world_def sample_summary_world_def)

section \<open>The addressing sequence\<close>

text \<open>The first seven bytes of the nine frames \<^verbatim>\<open>assignAddresses\<close> writes, in order.\<close>

lemma assignAddresses_emitted:
  "map (take 7) (emitted w (assignAddresses crc False w)) =
     [[HEAD, GLOBAL_ADDR, CMD_SET_ADDRESS, 0xad, 0, 0, 2],
      [HEAD, 0xad, CMD_TRIGGER, 0, 0, 0, 0],
      [HEAD, GLOBAL_ADDR, CMD_SET_ADDRESS, 0xbc, 0, 0, 2],
      [HEAD, 0xbc, CMD_TRIGGER, 0, 0, 0, 0],
      [HEAD, 0xad, CMD_TRIGGER, 0, 0, 0, 0],
      [HEAD, GLOBAL_ADDR, CMD_SET_ADDRESS, 0xde, 0, 0, 2],
      [HEAD, 0xde, CMD_TRIGGER, 0, 0, 0, 0],
      [HEAD, 0xbc, CMD_TRIGGER, 0, 0, 0, 0],
      [HEAD, GLOBAL_ADDR, CMD_AUTOADDR_DONE, 0, 0, 0, 0]]"
  by (simp add: assignAddresses_def NO_BMS_def upt_0_3 assign_step_def Let_def addresses_def emitted_def)

text \<open>
  Claim C5. Over the three boards \<^verbatim>\<open>assignAddresses\<close> writes nine frames. Listed by
  address byte, command and first payload byte they are: for board 0 a \<open>SET_ADDRESS\<close>
  carrying \<open>0xAD\<close> and a \<open>TRIGGER\<close> to \<open>0xAD\<close>; for board 1 a \<open>SET_ADDRESS\<close> carrying
  \<open>0xBC\<close>, a \<open>TRIGGER\<close> to \<open>0xBC\<close> and one to \<open>0xAD\<close>; for board 2 a \<open>SET_ADDRESS\<close>
  carrying \<open>0xDE\<close>, a \<open>TRIGGER\<close> to \<open>0xDE\<close> and one to \<open>0xBC\<close>; then \<open>AUTOADDR_DONE\<close>.
  The \<open>SET_ADDRESS\<close> payloads in order are the address list, exactly one frame is
  \<open>AUTOADDR_DONE\<close>, and it is the last frame, addressed to \<open>0xFF\<close>.
\<close>

theorem addressing_sequence:
  "map (\<lambda>f. (f ! 1, f ! 2, f ! 3)) (emitted w (assignAddresses crc False w)) =
     [(GLOBAL_ADDR, CMD_SET_ADDRESS, 0xad), (0xad, CMD_TRIGGER, 0),
      (GLOBAL_ADDR, CMD_SET_ADDRESS, 0xbc), (0xbc, CMD_TRIGGER, 0), (0xad, CMD_TRIGGER, 0),
      (GLOBAL_ADDR, CMD_SET_ADDRESS, 0xde), (0xde, CMD_TRIGGER, 0), (0xbc, CMD_TRIGGER, 0),
      (GLOBAL_ADDR, CMD_AUTOADDR_DONE, 0)] \<and>
   map (\<lambda>f. f ! 3) (filter (\<lambda>f. f ! 2 = CMD_SET_ADDRESS) (emitted w (assignAddresses crc False w)))
     = addresses \<and>
   length (filter (\<lambda>f. f ! 2 = CMD_AUTOADDR_DONE) (emitted w (assignAddresses crc False w))) = 1 \<and>
   last (emitted w (assignAddresses crc False w)) ! 2 = CMD_AUTOADDR_DONE \<and>
   last (emitted w (assignAddresses crc False w)) ! 1 = GLOBAL_ADDR \<and>
   GLOBAL_ADDR = 0xff"
  by (simp add: assignAddresses_def NO_BMS_def upt_0_3 assign_step_def Let_def addresses_def emitted_def
      CMD_SET_ADDRESS_def CMD_TRIGGER_def CMD_AUTOADDR_DONE_def GLOBAL_ADDR_def)

text \<open>
  Claim C4 says that the \<open>SET_ADDRESS\<close> frame of every board has the address byte
  \<open>DEFAULT\<close> (\<open>0xFE\<close>). The first frame written is the \<open>SET_ADDRESS\<close> for board 0, and
  its address byte is not \<open>0xFE\<close>.
\<close>

theorem set_address_is_broadcast_counterexample:
  "hd (emitted silent_world (assignAddresses (crcCalcCRC8 7 0) False silent_world)) ! 2 = CMD_SET_ADDRESS \<and>
   hd (emitted silent_world (assignAddresses (crcCalcCRC8 7 0) False silent_world)) ! 3 = addresses ! 0 \<and>
   hd (emitted silent_world (assignAddresses (crcCalcCRC8 7 0) False silent_world)) ! 1 \<noteq> DEFAULT_ADDR"
  by (simp add: assignAddresses_def NO_BMS_def upt_0_3 assign_step_def Let_def addresses_def emitted_def
      GLOBAL_ADDR_def DEFAULT_ADDR_def)

text \<open>
  Claim C4, amended. There is one \<open>SET_ADDRESS\<close> frame per board; the frame for board
  \<open>i\<close> carries the new address of board \<open>i\<close> in byte 3 and has the address byte
  \<open>GLOBAL\<close> (\<open>0xFF\<close>): the command list \<^verbatim>\<open>global_set_addr_cmd\<close> is a broadcast.
\<close>

theorem set_address_is_broadcast:
  "i < NO_BMS \<Longrightarrow>
     length (filter (\<lambda>f. f ! 2 = CMD_SET_ADDRESS) (emitted w (assignAddresses crc False w))) = NO_BMS \<and>
     filter (\<lambda>f. f ! 2 = CMD_SET_ADDRESS) (emitted w (assignAddresses crc False w)) ! i ! 1 = GLOBAL_ADDR \<and>
     filter (\<lambda>f. f ! 2 = CMD_SET_ADDRESS) (emitted w (assignAddresses crc False w)) ! i ! 3 = addresses ! i \<and>
     GLOBAL_ADDR = 0xff"
proof -
  assume "i < NO_BMS"
  then have "i = 0 \<or> i = 1 \<or> i = 2" by (auto simp add: NO_BMS_def)
  then show ?thesis
    by (elim disjE) (simp_all add: assignAddresses_def NO_BMS_def upt_0_3 assign_step_def Let_def
        addresses_def emitted_def CMD_SET_ADDRESS_def CMD_TRIGGER_def CMD_AUTOADDR_DONE_def GLOBAL_ADDR_def)
qed

theorem set_address_is_broadcast_witness:
  "(1::nat) < NO_BMS \<and>
   filter (\<lambda>f. f ! 2 = CMD_SET_ADDRESS)
      (emitted silent_world (assignAddresses (crcCalcCRC8 7 0) False silent_world)) ! 1 ! 1 = 0xff \<and>
   filter (\<lambda>f. f ! 2 = CMD_SET_ADDRESS)
      (emitted silent_world (assignAddresses (crcCalcCRC8 7 0) False silent_world)) ! 1 ! 3 = 0xbc"
  using set_address_is_broadcast [of 1 silent_world "crcCalcCRC8 7 0"]
  by (simp add: NO_BMS_def addresses_def)

section \<open>Command frames carry a checksum that validates\<close>

lemma crc8_update_self: "crc8_update poly c c = 0"
  by (simp add: crc8_update_unfold crc8_shift_def)

lemma take_Suc_update: "n < length f \<Longrightarrow> take (Suc n) (f[n := c]) = take n f @ [c]"
  by (simp add: take_Suc_conv_app_nth)

lemma crc_residue:
  "7 < length f \<Longrightarrow> crcCalcCRC8 poly init (f[7 := crcCalcCRC8 poly init f 7]) 8 = 0"
proof -
  assume len: "7 < length f"
  have "take (Suc 7) (f[7 := c]) = take 7 f @ [c]" for c
    using len by (rule take_Suc_update)
  then have "take 8 (f[7 := c]) = take 7 f @ [c]" for c
    by simp
  then show ?thesis
    by (simp add: crcCalcCRC8_def crc8_update_self)
qed

lemma crc_residue_frame:
  "crcCalcCRC8 poly init [a, b, c, d, e, f, g, crcCalcCRC8 poly init [a, b, c, d, e, f, g, h] 7] 8 = 0"
  using crc_residue [of "[a, b, c, d, e, f, g, h]" poly init] by simp

text \<open>
  Claim C9. With the modelled CRC-8, for every polynomial and initial register: every
  frame written by the addressing sequence, the snapshot broadcast, the voltage poll, the
  summary request and the balance-target command has 8 bytes, and the checksum over all 8
  bytes, taken after byte 7 was set to the checksum of the first 7, is zero. The same
  holds of the balance-target and summary frames as built, whether or not they are sent.
\<close>

theorem command_frames_valid:
  "list_all (\<lambda>f. length f = BMS_COMMAND_LEN \<and> crcCalcCRC8 poly init f BMS_COMMAND_LEN = 0)
     (emitted w (assignAddresses (crcCalcCRC8 poly init) False w)
      @ emitted w (globalSnapshot (crcCalcCRC8 poly init) Ess_curr w)
      @ emitted w (snd (pollForVoltages (crcCalcCRC8 poly init) False addr w))
      @ emitted w (snd (sendSummary (crcCalcCRC8 poly init) False addr Ess_curr w))
      @ emitted w (snd (balanceTarget (crcCalcCRC8 poly init) False addr target w))) \<and>
   crcCalcCRC8 poly init (balance_target_cmd (crcCalcCRC8 poly init) addr target) BMS_COMMAND_LEN = 0 \<and>
   crcCalcCRC8 poly init (send_summary_cmd (crcCalcCRC8 poly init) addr Ess_curr) BMS_COMMAND_LEN = 0"
proof -
  let ?crc = "crcCalcCRC8 poly init"
  let ?ok = "\<lambda>f. length f = BMS_COMMAND_LEN \<and> ?crc f BMS_COMMAND_LEN = 0"
  have a: "list_all ?ok (emitted w (assignAddresses ?crc False w))"
    by (simp add: assignAddresses_def NO_BMS_def upt_0_3 assign_step_def Let_def addresses_def
        emitted_def BMS_COMMAND_LEN_def crc_residue_frame)
  have b: "list_all ?ok (emitted w (globalSnapshot ?crc Ess_curr w))"
    by (simp add: globalSnapshot_def Let_def emitted_def BMS_COMMAND_LEN_def crc_residue_frame)
  have c: "list_all ?ok (emitted w (snd (pollForVoltages ?crc False addr w)))"
    by (simp add: pollForVoltages_def Let_def split_beta upt_0_3 poll_real_step_world
        globalSnapshot_def emitted_def BMS_COMMAND_LEN_def crc_residue_frame)
  have d: "?ok (send_summary_cmd ?crc addr Ess_curr)"
    by (simp add: send_summary_cmd_def Let_def BMS_COMMAND_LEN_def crc_residue_frame)
  have e: "?ok (balance_target_cmd ?crc addr target)"
    by (simp add: balance_target_cmd_def Let_def BMS_COMMAND_LEN_def crc_residue_frame)
  from a b c d e show ?thesis
    by (simp add: sendSummary_real balanceTarget_written)
qed

theorem command_frames_valid_witness:
  "balance_target_cmd (crcCalcCRC8 7 0) 0xad 3300 = [0x58, 0xad, 0xaa, 0x00, 0xe3, 0x0c, 0x00, 0xc8] \<and>
   crcCalcCRC8 7 0 [0x58, 0xad, 0xaa, 0x00, 0xe3, 0x0c, 0x00, 0xc8] BMS_COMMAND_LEN = 0"
proof -
  have built: "balance_target_cmd crc 0xad 3300 =
      [0x58, 0xad, 0xaa, 0x00, 0xe3, 0x0c, 0x00, crc [0x58, 0xad, 0xaa, 0x00, 0xe3, 0x0c, 0x00, 0xff] 7]" for crc
    by (simp add: balance_target_cmd_def Let_def HEAD_def CMD_BALANCE_TARGET_def)
  have sum: "crcCalcCRC8 7 0 [0x58, 0xad, 0xaa, 0x00, 0xe3, 0x0c, 0x00, 0xff] 7 = 0xc8"
    by (simp add: crcCalcCRC8_def crc8_update_unfold crc8_shift_def)
  have frame: "balance_target_cmd (crcCalcCRC8 7 0) 0xad 3300 = [0x58, 0xad, 0xaa, 0x00, 0xe3, 0x0c, 0x00, 0xc8]"
    by (simp only: built sum)
  have "crcCalcCRC8 7 0 (balance_target_cmd (crcCalcCRC8 7 0) 0xad 3300) BMS_COMMAND_LEN = 0"
    by (rule command_frames_valid [of 7 0 silent_world 285 "0xad" 3300, THEN conjunct2, THEN conjunct1])
  then have "crcCalcCRC8 7 0 [0x58, 0xad, 0xaa, 0x00, 0xe3, 0x0c, 0x00, 0xc8] BMS_COMMAND_LEN = 0"
    by (simp only: frame)
  with frame show ?thesis by (rule conjI)
qed

section \<open>The simulated branch against the real one\<close>

lemma upt_2_10: "[2..<10] = [2, 3, 4, 5, 6, 7, 8, 9]"
  by (simp add: upt_rec)

lemma upt_10_14: "[10..<14] = [10, 11, 12, 13]"
  by (simp add: upt_rec)

lemma sim_fill_length [simp]: "length (fst (sim_fill i st)) = length (fst st)"
  by (simp add: sim_fill_def split_beta Let_def randint_def)

lemma sim_fill_nth:
  "fst (sim_fill i st) ! n =
     (if n = i \<and> i < length (fst st) then fst (randint 0 (if i mod 2 = 0 then 255 else 15) (snd st))
      else fst st ! n)"
  by (auto simp add: sim_fill_def split_beta Let_def nth_list_update list_update_beyond not_less)

lemma randint_nibble: "uint (fst (randint 0 15 w)) < 16"
proof -
  define m where "m = rand_src w (rand_pos w) mod 16"
  have "m < 16" by (simp add: m_def)
  then have "take_bit 8 m = m"
    by (simp add: take_bit_nat_eq_self)
  then have "uint (of_nat m :: byte) = int m"
    by (simp add: unsigned_of_nat)
  with \<open>m < 16\<close> show ?thesis by (simp add: randint_def m_def)
qed

lemma poll_sim_step_buf_length:
  "length (fst (snd (poll_sim_step crc a j st))) = length (fst (snd st))"
  by (simp add: poll_sim_step_def split_beta Let_def upt_2_10 upt_10_14)

lemma poll_sim_step_buf_odd:
  assumes "length (fst (snd st)) = 14" "i = 3 \<or> i = 5 \<or> i = 7 \<or> i = 9"
  shows "uint (fst (snd (poll_sim_step crc a j st)) ! i) < 16"
  using assms(2) assms(1)
  by (elim disjE) (simp_all add: poll_sim_step_def split_beta Let_def upt_2_10 upt_10_14
      sim_fill_nth randint_nibble)

lemma poll_sim_step_fst:
  "fst (poll_sim_step crc a j st) =
     (if response_ok crc (fst (snd (poll_sim_step crc a j st)))
      then fold (\<lambda>k av. av[j * 4 + k :=
                    word_of_int (cellVoltages (fst (snd (poll_sim_step crc a j st))) ! k + 1)]) [0..<4] (fst st)
      else fst st)"
  by (simp add: poll_sim_step_def split_beta Let_def)

lemma poll_sim_step_length [simp]:
  "length (fst (poll_sim_step crc a j st)) = length (fst st)"
  by (subst poll_sim_step_fst) simp

lemma poll_sim_step_nth:
  "j * 4 + 4 \<le> length (fst st) \<Longrightarrow>
   fst (poll_sim_step crc a j st) ! n =
     (if response_ok crc (fst (snd (poll_sim_step crc a j st))) \<and> j * 4 \<le> n \<and> n < j * 4 + 4
      then word_of_int (cellVoltages (fst (snd (poll_sim_step crc a j st))) ! (n - j * 4) + 1)
      else fst st ! n)"
  by (subst poll_sim_step_fst) (simp add: store_nth)

lemma sim_frame_simps:
  "sim_frame crc a w 0 = fst (snd (poll_sim_step crc a 0 (replicate 12 0, replicate BM_RESPONSE_LEN 0, w)))"
  "sim_frame crc a w (Suc 0) = fst (snd (poll_sim_step crc a (Suc 0)
      (poll_sim_step crc a 0 (replicate 12 0, replicate BM_RESPONSE_LEN 0, w))))"
  "sim_frame crc a w 2 = fst (snd (poll_sim_step crc a 2 (poll_sim_step crc a (Suc 0)
      (poll_sim_step crc a 0 (replicate 12 0, replicate BM_RESPONSE_LEN 0, w)))))"
  by (simp_all add: sim_frame_def upt_rec numeral_2_eq_2)

lemma pollForVoltages_sim_nth:
  assumes "j < 3" "k < 4"
  shows "fst (pollForVoltages crc True a w) ! (4 * j + k) =
     (if response_ok crc (sim_frame crc a w j)
      then word_of_int (cellVoltages (sim_frame crc a w j) ! k + 1) else 0)"
proof -
  from assms have "j = 0 \<or> j = Suc 0 \<or> j = 2" by auto
  then show ?thesis using assms(2)
    by (elim disjE)
       (simp_all add: pollForVoltages_def Let_def split_beta upt_0_3 poll_sim_step_nth sim_frame_simps)
qed

lemma sim_frame_odd:
  assumes "j < 3" "k < 4"
  shows "uint (sim_frame crc a w j ! (3 + 2 * k)) < 16"
proof -
  from assms(2) have i: "3 + 2 * k = 3 \<or> 3 + 2 * k = 5 \<or> 3 + 2 * k = 7 \<or> 3 + 2 * k = 9" by auto
  from assms(1) have "j = 0 \<or> j = Suc 0 \<or> j = 2" by auto
  then show ?thesis
    by (elim disjE)
       (simp_all only: sim_frame_simps,
        auto intro!: poll_sim_step_buf_odd [OF _ i] simp add: poll_sim_step_buf_length BM_RESPONSE_LEN_def)
qed

lemma cellVoltages_sim_bound:
  assumes "j < 3" "k < 4"
  shows "0 \<le> cellVoltages (sim_frame crc a w j) ! k" "cellVoltages (sim_frame crc a w j) ! k < 4096"
proof -
  let ?F = "sim_frame crc a w j"
  have eq: "cellVoltages ?F ! k = uint (?F ! (2 + 2 * k)) + 256 * uint (?F ! (3 + 2 * k))"
    using assms(2) by (simp add: cellVoltages_nth or_shift_byte)
  show "0 \<le> cellVoltages ?F ! k" by (simp add: eq)
  show "cellVoltages ?F ! k < 4096"
    using sim_frame_odd [OF assms, of crc a w] uint_lt2p [of "?F ! (2 + 2 * k)"]
    by (simp add: eq)
qed

text \<open>
  Claim C10. Let the simulated branch of \<^verbatim>\<open>pollForVoltages\<close> build the response frame
  of pass \<open>j\<close>, and let the real branch receive that same frame as the reply to its
  request \<open>j\<close>. When the frame passes the check, every entry \<open>4 * j + k\<close> that the
  simulated branch fills is the entry of the real branch plus 1, as 16-bit values and as
  numbers (the simulated frames hold 12-bit voltages, so the sum does not wrap), and the
  two results differ there.
\<close>

theorem sim_real_off_by_one:
  "j < 3 \<Longrightarrow> k < 4 \<Longrightarrow> received wr (Suc j) = sim_frame crc address ws j \<Longrightarrow>
   response_ok crc (sim_frame crc address ws j) \<Longrightarrow>
     fst (pollForVoltages crc True address ws) ! (4 * j + k)
       = fst (pollForVoltages crc False address wr) ! (4 * j + k) + 1 \<and>
     uint (fst (pollForVoltages crc True address ws) ! (4 * j + k))
       = uint (fst (pollForVoltages crc False address wr) ! (4 * j + k)) + 1 \<and>
     fst (pollForVoltages crc True address ws) ! (4 * j + k)
       \<noteq> fst (pollForVoltages crc False address wr) ! (4 * j + k)"
proof -
  assume j: "j < 3" and k: "k < 4"
    and same: "received wr (Suc j) = sim_frame crc address ws j"
    and ok: "response_ok crc (sim_frame crc address ws j)"
  define v where "v = cellVoltages (sim_frame crc address ws j) ! k"
  have bound: "0 \<le> v" "v < 4096"
    using cellVoltages_sim_bound [OF j k, of crc address ws] by (simp_all add: v_def)
  have sim: "fst (pollForVoltages crc True address ws) ! (4 * j + k) = word_of_int (v + 1)"
    using ok by (simp add: pollForVoltages_sim_nth [OF j k] v_def)
  have real: "fst (pollForVoltages crc False address wr) ! (4 * j + k) = word_of_int v"
    using ok same by (simp add: pollForVoltages_real_nth [OF j k] v_def)
  have u_real: "uint (word_of_int v :: uint16) = v"
    using bound by (simp add: uint_word_of_int take_bit_int_eq_self)
  have u_sim: "uint (word_of_int (v + 1) :: uint16) = v + 1"
    using bound by (simp only: uint_word_of_int) (simp add: take_bit_int_eq_self)
  have "word_of_int (v + 1) \<noteq> (word_of_int v :: uint16)"
    using u_real u_sim by (metis add.commute add_cancel_right_left zero_neq_one)
  then show ?thesis
    by (simp only: sim real u_real u_sim) simp
qed

lemma crc_residue_any:
  "n < length f \<Longrightarrow> crcCalcCRC8 poly init (f[n := crcCalcCRC8 poly init f n]) (Suc n) = 0"
  by (simp add: crcCalcCRC8_def take_Suc_update crc8_update_self)

lemma fold_sim_fill_length [simp]: "length (fst (fold sim_fill is st)) = length (fst st)"
  by (induction "is" arbitrary: st) simp_all

lemma fold_clear_length [simp]: "length (fold (\<lambda>i b. b[i := c]) is b) = length b"
  by (induction "is" arbitrary: b) simp_all

lemma poll_sim_step_built:
  "\<exists>X. length X = length (fst (snd st)) \<and> fst (snd (poll_sim_step crc a j st)) = X[13 := crc X 13]"
proof (intro exI conjI)
  let ?X = "fold (\<lambda>i b. b[i := 0]) [10..<14]
              (fst (fold sim_fill [2..<10] ((fst (snd st))[0 := HEAD, 1 := a], snd (snd st))))"
  show "length ?X = length (fst (snd st))" by simp
  show "fst (snd (poll_sim_step crc a j st)) = ?X[13 := crc ?X 13]"
    by (simp add: poll_sim_step_def split_beta Let_def)
qed

lemma poll_sim_step_ok:
  assumes "length (fst (snd st)) = 14"
  shows "response_ok (crcCalcCRC8 poly init) (fst (snd (poll_sim_step (crcCalcCRC8 poly init) a j st)))"
proof -
  obtain X where X: "length X = 14"
      "fst (snd (poll_sim_step (crcCalcCRC8 poly init) a j st)) = X[13 := crcCalcCRC8 poly init X 13]"
    using poll_sim_step_built [of st "crcCalcCRC8 poly init" a j] assms by auto
  have "crcCalcCRC8 poly init (X[13 := crcCalcCRC8 poly init X 13]) (Suc 13) = 0"
    using X(1) by (intro crc_residue_any) simp
  then show ?thesis
    using X by (simp add: response_ok_def BM_RESPONSE_LEN_def)
qed

lemma sim_frame_length: "j < 3 \<Longrightarrow> length (sim_frame crc a w j) = 14"
proof -
  assume "j < 3"
  then have "j = 0 \<or> j = Suc 0 \<or> j = 2" by auto
  then show ?thesis
    by (elim disjE) (simp_all add: sim_frame_simps poll_sim_step_buf_length BM_RESPONSE_LEN_def)
qed

lemma sim_frame_ok:
  "j < 3 \<Longrightarrow> response_ok (crcCalcCRC8 poly init) (sim_frame (crcCalcCRC8 poly init) a w j)"
proof -
  assume "j < 3"
  then have "j = 0 \<or> j = Suc 0 \<or> j = 2" by auto
  then show ?thesis
    by (elim disjE)
       (simp_all only: sim_frame_simps,
        auto intro!: poll_sim_step_ok simp add: poll_sim_step_buf_length BM_RESPONSE_LEN_def)
qed

lemma received_sample_echo:
  "received sample_echo_world (Suc 0) = sim_frame (crcCalcCRC8 7 0) 0xad sample_sim_world 0"
  using sim_frame_length [of 0 "crcCalcCRC8 7 0" "0xad" sample_sim_world]
  by (simp add: received_def reply_def sample_echo_world_def BM_RESPONSE_LEN_def)

lemma sample_sim_cell:
  "cellVoltages (sim_frame crc 0xad sample_sim_world 0) ! 1 = 2645"
  by (simp add: cellVoltages_def Let_def sim_frame_simps poll_sim_step_def split_beta upt_2_10 upt_10_14
      sim_fill_def randint_def sample_sim_world_def silent_world_def BM_RESPONSE_LEN_def)

theorem sim_real_off_by_one_witness:
  "(0::nat) < 3 \<and> (1::nat) < 4 \<and>
   received sample_echo_world (Suc 0) = sim_frame (crcCalcCRC8 7 0) 0xad sample_sim_world 0 \<and>
   response_ok (crcCalcCRC8 7 0) (sim_frame (crcCalcCRC8 7 0) 0xad sample_sim_world 0) \<and>
   uint (fst (pollForVoltages (crcCalcCRC8 7 0) True 0xad sample_sim_world) ! (4 * 0 + 1)) = 2646 \<and>
   uint (fst (pollForVoltages (crcCalcCRC8 7 0) False 0xad sample_echo_world) ! (4 * 0 + 1)) = 2645"
proof -
  have ok: "response_ok (crcCalcCRC8 7 0) (sim_frame (crcCalcCRC8 7 0) 0xad sample_sim_world 0)"
    by (rule sim_frame_ok) simp
  have j: "(0::nat) < 3" and k: "(1::nat) < 4" by simp_all
  have sim: "uint (fst (pollForVoltages (crcCalcCRC8 7 0) True 0xad sample_sim_world) ! (4 * 0 + 1)) = 2646"
    using ok by (simp only: pollForVoltages_sim_nth [OF j k] sample_sim_cell if_True) simp
  from sim_real_off_by_one [OF j k received_sample_echo ok, THEN conjunct2, THEN conjunct1] sim
  have "uint (fst (pollForVoltages (crcCalcCRC8 7 0) False 0xad sample_echo_world) ! (4 * 0 + 1)) = 2645"
    by simp
  with sim ok received_sample_echo show ?thesis by simp
qed

section \<open>A failed response in the polling loop\<close>

lemma pollForVoltages_real_received:
  "received (snd (pollForVoltages crc False a w)) n = received w (n + 4)"
proof -
  have "n + 4 = Suc (Suc (Suc (Suc n)))" by simp
  then show ?thesis
    by (simp only: pollForVoltages_def Let_def split_beta upt_0_3 fold_simps poll_real_step_received
        globalSnapshot_received id_apply o_apply snd_conv fst_conv if_True simp_thms)
qed

lemma pollForVoltages_real_written_length:
  "length (written (snd (pollForVoltages crc False a w))) = length (written w) + 4"
  by (simp add: pollForVoltages_def Let_def split_beta upt_0_3 poll_real_step_world)

lemma sendSummary_real_received:
  "received (snd (sendSummary crc False a c w)) n = received w (Suc n)"
  by (rule received_tl) (simp add: sendSummary_real)

lemma poll_board_fst:
  "fst (poll_board crc False i st) = (fst st)[i := fst (pollForVoltages crc False (addresses ! i) (snd st))]"
  by (simp add: poll_board_def split_beta Let_def)

lemma poll_board_received:
  "received (snd (poll_board crc False i st)) n = received (snd st) (n + 5)"
proof -
  have "received (snd (poll_board crc False i st)) n = received (snd st) (Suc n + 4)"
    by (simp add: poll_board_def split_beta Let_def sendSummary_real_received pollForVoltages_real_received
        del: add_Suc add_Suc_right)
  then show ?thesis by (simp add: add.commute)
qed

lemma poll_board_written_length:
  "length (written (snd (poll_board crc False i st))) = length (written (snd st)) + 5"
  by (simp add: poll_board_def split_beta Let_def sendSummary_real pollForVoltages_real_written_length)

lemma poll_board_length [simp]: "length (fst (poll_board crc False i st)) = length (fst st)"
  by (simp add: poll_board_fst)

lemma poll_cycle_entry:
  assumes "i < 3" "j < 3" "k < 4" "length bv = NO_BMS"
  shows "fst (poll_cycle crc False (bv, w)) ! i ! (4 * j + k) =
     (if response_ok crc (received w (5 * i + Suc j))
      then word_of_int (cellVoltages (received w (5 * i + Suc j)) ! k) else 0)"
proof -
  from assms(1) have "i = 0 \<or> i = Suc 0 \<or> i = Suc (Suc 0)" by auto
  then show ?thesis using assms(4)
    by (elim disjE)
       (simp_all add: poll_cycle_def addresses_def upt_0_3 poll_board_fst poll_board_received
          pollForVoltages_real_nth [OF assms(2,3)] NO_BMS_def)
qed

lemma poll_cycle_written_length:
  "length (written (snd (poll_cycle crc False st))) = length (written (snd st)) + 15"
  by (simp add: poll_cycle_def addresses_def upt_0_3 poll_board_written_length)

lemma poll_cycle_length: "length (fst (poll_cycle crc False st)) = length (fst st)"
  by (simp add: poll_cycle_def addresses_def upt_0_3)

lemma poll_cycle_received:
  "received (snd (poll_cycle crc False st)) n = received (snd st) (n + 15)"
  by (simp add: poll_cycle_def addresses_def upt_0_3 poll_board_received add.commute)

text \<open>
  Claim C8, amended. In one round of the polling loop over a table with one row per
  board, entry \<open>4 * j + k\<close> of the row of board \<open>i\<close> afterwards is the voltage decoded
  from the response to request \<open>j\<close> for that board when the response passes the check,
  and 0 when it fails: the row is overwritten with the fresh array \<^verbatim>\<open>pollForVoltages\<close>
  returns, so what was stored before does not survive. The loop is not aborted: the round
  writes all 15 frames (snapshot, three voltage requests and the summary request for each
  of the three boards) whatever the responses are.
\<close>

theorem failed_response_zeroes:
  "i < 3 \<Longrightarrow> j < 3 \<Longrightarrow> k < 4 \<Longrightarrow> length bv = NO_BMS \<Longrightarrow>
     fst (poll_cycle crc False (bv, w)) ! i ! (4 * j + k) =
       (if response_ok crc (received w (5 * i + Suc j))
        then word_of_int (cellVoltages (received w (5 * i + Suc j)) ! k) else 0) \<and>
     length (emitted w (snd (poll_cycle crc False (bv, w)))) = 15"
  using poll_cycle_written_length [of crc "(bv, w)"]
  by (simp add: poll_cycle_entry emitted_def)

lemma battery_voltages_init_length: "length battery_voltages_init = NO_BMS"
  by (simp add: battery_voltages_init_def)

theorem failed_response_zeroes_witness:
  "(0::nat) < 3 \<and> (0::nat) < 4 \<and> length battery_voltages_init = NO_BMS \<and>
   \<not> response_ok (crcCalcCRC8 7 0) (received silent_world (5 * 0 + Suc 0)) \<and>
   fst (poll_cycle (crcCalcCRC8 7 0) False (battery_voltages_init, silent_world)) ! 0 ! (4 * 0 + 0) = 0 \<and>
   length (emitted silent_world (snd (poll_cycle (crcCalcCRC8 7 0) False (battery_voltages_init, silent_world)))) = 15"
  using failed_response_zeroes [of 0 0 0 battery_voltages_init "crcCalcCRC8 7 0" silent_world]
  by (simp add: battery_voltages_init_length)

text \<open>
  Claim C8 says that after a failed response the values stored for the board stay as they
  were. Two rounds in a row: in the first the board at \<open>0xAD\<close> answers the three voltage
  requests and 100 is stored for its first cell; in the second no board answers, the
  response to the first request fails the check, and the stored value is 0.
\<close>

theorem stored_values_kept_counterexample:
  "fst (poll_cycle (crcCalcCRC8 7 0) False (battery_voltages_init, sample_voltage_world)) ! 0 ! (4 * 0 + 0) = 100 \<and>
   \<not> response_ok (crcCalcCRC8 7 0)
        (received (snd (poll_cycle (crcCalcCRC8 7 0) False (battery_voltages_init, sample_voltage_world))) (5 * 0 + Suc 0)) \<and>
   fst (poll_cycle (crcCalcCRC8 7 0) False
          (poll_cycle (crcCalcCRC8 7 0) False (battery_voltages_init, sample_voltage_world))) ! 0 ! (4 * 0 + 0) = 0"
proof -
  let ?C = "crcCalcCRC8 7 0"
  let ?s1 = "poll_cycle ?C False (battery_voltages_init, sample_voltage_world)"
  have first: "fst ?s1 ! 0 ! (4 * 0 + 0) = 100"
    using sample_voltage_ok(1) received_sample_voltage [of 0]
      poll_cycle_entry [of 0 0 0 battery_voltages_init ?C sample_voltage_world]
    by (simp add: battery_voltages_init_length cellVoltages_def Let_def sample_voltage_responses_def)
  have gone: "received (snd ?s1) (5 * 0 + Suc 0) = []"
    by (simp only: poll_cycle_received snd_conv)
       (simp add: received_def reply_def sample_voltage_world_def sample_voltage_responses_def)
  have len: "length (fst ?s1) = NO_BMS"
    by (simp add: poll_cycle_length battery_voltages_init_length)
  have "fst (poll_cycle ?C False (fst ?s1, snd ?s1)) ! 0 ! (4 * 0 + 0) = 0"
    using gone poll_cycle_entry [of 0 0 0 "fst ?s1" ?C "snd ?s1"] len by simp
  with first gone show ?thesis by simp
qed

end
